theory Spec2Isabelle
  imports Main
begin

section \<open>Python values, exceptions and string primitives\<close>

text \<open>
  The client is the Python class \<open>API_to_data\<close> of \<open>APIdata.py\<close>.  A Python \<open>str\<close> is
  modelled as a \<open>string\<close>, one \<open>char\<close> per code point (the code points below 256, which
  include the six Norwegian letters of the search table).  An exception is a value of
  type \<open>error\<close>; a function that can raise returns \<open>error + 'a\<close>.
\<close>

datatype error =
    ValueError
  | TypeError
  | UnboundLocalError
  | KeyError
  | IndexError
  | AttributeError
  | SyntaxError
  | TransportError
  | Unmodelled

text \<open>The Python values that occur: \<open>None\<close>, integers, strings, lists and dictionaries
  (a dictionary as the list of its items, in insertion order).\<close>

datatype pyval =
    PNone
  | PInt int
  | PStr string
  | PList "pyval list"
  | PDict "(pyval \<times> pyval) list"

definition is_digit :: "char \<Rightarrow> bool" where
  "is_digit c = (48 \<le> (of_char c :: nat) \<and> (of_char c :: nat) \<le> 57)"

definition digit_val :: "char \<Rightarrow> nat" where
  "digit_val c = of_char c - 48"

definition digit_chr :: "nat \<Rightarrow> char" where
  "digit_chr d = ''0123456789'' ! d"

text \<open>\<open>str(n)\<close> for an integer: decimal digits, a minus sign for a negative number.\<close>

function str_nat :: "nat \<Rightarrow> string" where
  "str_nat n = (if n < 10 then [digit_chr n] else str_nat (n div 10) @ [digit_chr (n mod 10)])"
  by pat_completeness auto
termination
  by (relation "measure id") auto

declare str_nat.simps [simp del]

definition str_int :: "int \<Rightarrow> string" where
  "str_int i = (if i < 0 then ''-'' @ str_nat (nat (- i)) else str_nat (nat i))"

text \<open>
  \<open>int(x)\<close>.  For a string: surrounding whitespace is dropped, one sign is allowed, and
  the rest must be decimal digits, with single underscores allowed between digits;
  anything else raises \<open>ValueError\<close>.  \<open>None\<close>, lists and dictionaries raise
  \<open>TypeError\<close>.
\<close>

definition is_space :: "char \<Rightarrow> bool" where
  "is_space c = ((of_char c :: nat) \<in> {9, 10, 11, 12, 13, 28, 29, 30, 31, 32, 133, 160})"

definition strip :: "string \<Rightarrow> string" where
  "strip s = rev (dropWhile is_space (rev (dropWhile is_space s)))"

fun digits_ok :: "string \<Rightarrow> bool" where
  "digits_ok [] = False"
| "digits_ok [c] = is_digit c"
| "digits_ok (c # d # cs) =
     (is_digit c \<and> (if d = CHR ''_'' then digits_ok cs else digits_ok (d # cs)))"

definition nat_of_digits :: "string \<Rightarrow> nat" where
  "nat_of_digits ds = foldl (\<lambda>a c. 10 * a + digit_val c) 0 ds"

definition int_of_str :: "string \<Rightarrow> error + int" where
  "int_of_str s =
     (let t = strip s;
          neg = (t \<noteq> [] \<and> hd t = CHR ''-'');
          ds = (if t \<noteq> [] \<and> (hd t = CHR ''-'' \<or> hd t = CHR ''+'') then tl t else t)
      in if digits_ok ds
         then Inr (if neg then - int (nat_of_digits (filter (\<lambda>c. c \<noteq> CHR ''_'') ds))
                   else int (nat_of_digits (filter (\<lambda>c. c \<noteq> CHR ''_'') ds)))
         else Inl ValueError)"

fun py_int :: "pyval \<Rightarrow> error + int" where
  "py_int (PInt n) = Inr n"
| "py_int (PStr s) = int_of_str s"
| "py_int PNone = Inl TypeError"
| "py_int (PList xs) = Inl TypeError"
| "py_int (PDict kvs) = Inl TypeError"

text \<open>What \<open>'{x}'.format(x = v)\<close> inserts for an integer or a string.\<close>

fun py_format :: "pyval \<Rightarrow> string" where
  "py_format (PInt n) = str_int n"
| "py_format (PStr s) = s"
| "py_format PNone = ''None''"
| "py_format (PList xs) = ''[...]''"
| "py_format (PDict kvs) = ''{...}''"

text \<open>\<open>s.replace(k, v)\<close> for a one-character \<open>k\<close>: every occurrence, left to right.\<close>

fun replace_chr :: "char \<Rightarrow> string \<Rightarrow> string \<Rightarrow> string" where
  "replace_chr k v [] = []"
| "replace_chr k v (c # cs) = (if c = k then v else [c]) @ replace_chr k v cs"

section \<open>The client session\<close>

text \<open>The dictionaries of the metadata column: keys code, text, values, valueTexts.\<close>

record variable =
  v_code :: string
  v_text :: string
  v_values :: "string list"
  v_valueTexts :: "string list"

text \<open>The fields set by \<open>__init__\<close>: \<open>furl\<close>, \<open>variables\<close> and \<open>time\<close> start as \<open>None\<close>.\<close>

record session =
  language :: string
  burl :: string
  furl :: "string option"
  variables :: "variable list option"
  time :: "string option"

definition init :: "string \<Rightarrow> string \<Rightarrow> session" where
  "init lang base_url =
     \<lparr>language = lang, burl = base_url, furl = None, variables = None, time = None\<rparr>"

section \<open>search: the encoded search URL\<close>

text \<open>
  The table \<open>convert\<close> of \<open>search\<close>, in insertion order:
  \<open>ae\<close>, \<open>AE\<close>, \<open>o-slash\<close>, \<open>O-slash\<close>, \<open>a-ring\<close>, \<open>A-ring\<close>, the double quote,
  the two parentheses and the space.
\<close>

definition convert :: "(char \<times> string) list" where
  "convert =
     [(CHR 0xE6, ''%C3%A6''), (CHR 0xC6, ''%C3%86''),
      (CHR 0xF8, ''%C3%B8''), (CHR 0xD8, ''%C3%98''),
      (CHR 0xE5, ''%C3%A5''), (CHR 0xC5, ''%C3%85''),
      (CHR 0x22, ''%22''), (CHR ''('', ''%28''), (CHR '')'', ''%29''), (CHR '' '', ''%20'')]"

text \<open>The loop \<open>for k, v in convert.items(): search_str = search_str.replace(k, v)\<close>.\<close>

fun convert_loop :: "(char \<times> string) list \<Rightarrow> string \<Rightarrow> string" where
  "convert_loop [] search_str = search_str"
| "convert_loop ((k, v) # kvs) search_str = convert_loop kvs (replace_chr k v search_str)"

definition encode :: "string \<Rightarrow> string" where
  "encode search_str = convert_loop convert search_str"

text \<open>
  The string handed to \<open>pd.read_json\<close> by \<open>search\<close>: the template is filled in first and
  the whole URL is encoded, base URL and language included.
\<close>

definition search_str :: "session \<Rightarrow> string \<Rightarrow> string" where
  "search_str self phrase =
     encode (burl self @ ''/'' @ language self @ ''/table/?query='' @ phrase)"

text \<open>What one character becomes: its entry in \<open>convert\<close>, or itself.\<close>

definition encode_chr :: "char \<Rightarrow> string" where
  "encode_chr c = (case map_of convert c of Some v \<Rightarrow> v | None \<Rightarrow> [c])"

section \<open>The network and the running state\<close>

text \<open>
  The frame \<open>pd.read_json\<close> makes of the metadata document: column 0 holds the table's
  title, column 1 one dictionary per variable; there is one row per variable.
\<close>

record table_info =
  ti_title :: string
  ti_variables :: "variable list"

datatype request = Get string | Post string pyval

text \<open>
  The remote API is a parameter: what a request answers may depend on the requests made
  before it.  \<open>n_read_json\<close> stands for \<open>pd.read_json(url)\<close> on the metadata endpoint,
  \<open>n_post\<close> for \<open>requests.post(url, json = query)\<close>.
\<close>

text \<open>
  A cell of a data frame: a string, a number, a timestamp, or the missing value
  (\<open>NaN\<close>, \<open>NaT\<close>).  A frame is the list of its columns, each a label with its cells;
  the rows are numbered from 0 and the labels are taken to be distinct.
\<close>

record date =
  d_year :: nat
  d_month :: nat
  d_day :: nat

datatype cell = CStr string | CNum int | CTime date | CNaN

type_synonym frame = "(string \<times> cell list) list"

text \<open>
  The answer to the POST of a query, as \<open>read_box\<close> looks at it: what \<open>data.json()\<close>
  gives, and of that document what \<open>pyjstat.from_json_stat\<close> makes and what
  \<open>['dataset']['label']\<close> finds.
\<close>

record payload =
  pl_frames :: "error + frame list"
  pl_label :: "error + string"

record reply =
  rp_json :: "error + payload"

record net =
  n_read_json :: "request list \<Rightarrow> string \<Rightarrow> error + table_info"
  n_post :: "request list \<Rightarrow> string \<Rightarrow> pyval \<Rightarrow> error + reply"

text \<open>
  The state a call runs in: the client object \<open>self\<close>, the requests sent so far (oldest first)
  and the lines printed so far.
\<close>

record state =
  client :: session
  calls :: "request list"
  out :: "string list"

definition read_json :: "net \<Rightarrow> string \<Rightarrow> state \<Rightarrow> (error + table_info) \<times> state" where
  "read_json nt url st = (n_read_json nt (calls st) url, st\<lparr>calls := calls st @ [Get url]\<rparr>)"

definition post :: "net \<Rightarrow> string \<Rightarrow> pyval \<Rightarrow> state \<Rightarrow> (error + reply) \<times> state" where
  "post nt url query st =
     (n_post nt (calls st) url query, st\<lparr>calls := calls st @ [Post url query]\<rparr>)"

section \<open>get\_variables\<close>

text \<open>
  The \<open>try\<close> block: \<open>numb = int(table_id)\<close>, then the 4-digit padding.  A \<open>ValueError\<close> is
  caught, a line is printed and \<open>numb\<close> stays unbound (\<open>None\<close> here); any other exception
  leaves the function.  The result is the binding of the local \<open>numb\<close> and the lines
  printed.
\<close>

definition try_numb :: "pyval \<Rightarrow> error + (pyval option \<times> string list)" where
  "try_numb table_id =
     (case py_int table_id of
        Inl e \<Rightarrow>
          (if e = ValueError then Inr (None, [''table_id mus be of type integer''])
           else Inl e)
      | Inr numb \<Rightarrow>
          Inr (Some (if length (str_int numb) = 4 then PStr (''0'' @ str_int numb)
                     else PInt numb), []))"

text \<open>
  \<open>if self.furl is None: self.furl = '{base_url}/{language}/table/{table_id}'.format(...)\<close>;
  reading the unbound \<open>numb\<close> raises \<open>UnboundLocalError\<close>.  Returns the value of
  \<open>self.furl\<close> afterwards.
\<close>

definition resolve_furl :: "pyval option \<Rightarrow> state \<Rightarrow> (error + string) \<times> state" where
  "resolve_furl numb st =
     (case furl (client st) of
        Some url \<Rightarrow> (Inr url, st)
      | None \<Rightarrow>
          (case numb of
             None \<Rightarrow> (Inl UnboundLocalError, st)
           | Some v \<Rightarrow>
               (let url = burl (client st) @ ''/'' @ language (client st) @ ''/table/'' @ py_format v
                in (Inr url, st\<lparr>client := (client st)\<lparr>furl := Some url\<rparr>\<rparr>))))"

definition get_variables :: "net \<Rightarrow> pyval \<Rightarrow> state \<Rightarrow> (error + variable list) \<times> state" where
  "get_variables nt table_id st =
     (case try_numb table_id of
        Inl e \<Rightarrow> (Inl e, st)
      | Inr (numb, printed) \<Rightarrow>
          (case resolve_furl numb (st\<lparr>out := out st @ printed\<rparr>) of
             (Inl e, st1) \<Rightarrow> (Inl e, st1)
           | (Inr url, st1) \<Rightarrow>
               (case read_json nt url st1 of
                  (Inl e, st2) \<Rightarrow> (Inl e, st2)
                | (Inr df, st2) \<Rightarrow> (Inr (ti_variables df), st2))))"

section \<open>select\<close>

text \<open>
  \<open>OrderedDict(pairs)\<close>: a key seen again keeps its place and takes the new value; a new
  key goes to the end.
\<close>

fun od_set :: "'k \<Rightarrow> 'v \<Rightarrow> ('k \<times> 'v) list \<Rightarrow> ('k \<times> 'v) list" where
  "od_set k v [] = [(k, v)]"
| "od_set k v (p # ps) = (if fst p = k then (k, v) # ps else p # od_set k v ps)"

definition OrderedDict :: "('k \<times> 'v) list \<Rightarrow> ('k \<times> 'v) list" where
  "OrderedDict pairs = foldl (\<lambda>d (k, v). od_set k v d) [] pairs"

definition option_list :: "variable list \<Rightarrow> (string \<times> string) list list" where
  "option_list vars = map (\<lambda>var. OrderedDict (zip (v_valueTexts var) (v_values var))) vars"

text \<open>
  A \<open>SelectMultiple\<close> widget: its (label, value) options and the tuple of selected values,
  empty when the widget is made.
\<close>

record widget =
  w_options :: "(string \<times> string) list"
  w_value :: "string list"

text \<open>
  The container returned by \<open>select\<close>: \<open>children[0]\<close> is the headline label,
  \<open>children[2]\<close> the tab of selection widgets with its titles, \<open>children[3]\<close> the label
  holding the metadata URL (the end line and the button carry no data).
\<close>

record box =
  headline :: string
  tab_children :: "widget list"
  tab_titles :: "string list"
  url_text :: string

definition select :: "net \<Rightarrow> pyval \<Rightarrow> state \<Rightarrow> (error + box) \<times> state" where
  "select nt table_id st =
     (case get_variables nt table_id st of
        (Inl e, st1) \<Rightarrow> (Inl e, st1)
      | (Inr vars, st1) \<Rightarrow>
          (let st2 = st1\<lparr>client := (client st1)\<lparr>variables := Some vars\<rparr>\<rparr> in
           case furl (client st2) of
             None \<Rightarrow> (Inl TypeError, st2)
           | Some url \<Rightarrow>
               (case read_json nt url st2 of
                  (Inl e, st3) \<Rightarrow> (Inl e, st3)
                | (Inr table_info, st3) \<Rightarrow>
                    (if ti_variables table_info = [] then (Inl IndexError, st3)
                     else
                       (Inr \<lparr>headline = ti_title table_info,
                             tab_children =
                               map (\<lambda>opts. \<lparr>w_options = opts, w_value = []\<rparr>) (option_list vars),
                             tab_titles = map v_text vars,
                             url_text = url\<rparr>, st3)))))"

section \<open>fiksDato\<close>

definition leap_year :: "nat \<Rightarrow> bool" where
  "leap_year y = (y mod 4 = 0 \<and> (y mod 100 \<noteq> 0 \<or> y mod 400 = 0))"

definition days_in_month :: "nat \<Rightarrow> nat \<Rightarrow> nat" where
  "days_in_month y m =
     (if m = 2 then (if leap_year y then 29 else 28)
      else if m = 4 \<or> m = 6 \<or> m = 9 \<or> m = 11 then 30 else 31)"

definition zfill :: "nat \<Rightarrow> string \<Rightarrow> string" where
  "zfill w s = replicate (w - length s) (CHR ''0'') @ s"

text \<open>\<open>str(t)\<close> for a midnight \<open>Timestamp\<close>: \<open>YYYY-MM-DD 00:00:00\<close>.\<close>

definition str_timestamp :: "date \<Rightarrow> string" where
  "str_timestamp d =
     zfill 4 (str_nat (d_year d)) @ ''-'' @ zfill 2 (str_nat (d_month d)) @ ''-''
       @ zfill 2 (str_nat (d_day d)) @ '' 00:00:00''"

text \<open>
  \<open>pd.date_range(start, periods=1, freq='M')[0]\<close>, a function of the pandas library, for a
  start of the form \<open>YYYY-MM\<close> with a month from 01 to 12: the first month end on or
  after the first day of that month, which is the month's last day.  The calendar is the
  Gregorian one; the range of dates the library can represent is not modelled, and a
  start of any other form is outside this model.
\<close>

definition date_range_M :: "string \<Rightarrow> error + date" where
  "date_range_M start =
     (if length start = 7 \<and> list_all is_digit (take 4 start) \<and> start ! 4 = CHR ''-''
         \<and> list_all is_digit (drop 5 start)
         \<and> 1 \<le> nat_of_digits (take 4 start)
         \<and> 1 \<le> nat_of_digits (drop 5 start) \<and> nat_of_digits (drop 5 start) \<le> 12
      then Inr \<lparr>d_year = nat_of_digits (take 4 start),
                d_month = nat_of_digits (drop 5 start),
                d_day = days_in_month (nat_of_digits (take 4 start))
                                      (nat_of_digits (drop 5 start))\<rparr>
      else Inl Unmodelled)"

text \<open>
  The first half of \<open>fiksDato\<close>: \<open>hjdat = int(dato[5:6])*3\<close> and the rewritten \<open>dato\<close>,
  with \<open>'-0'\<close> before the month when \<open>hjdat < 12\<close>.
\<close>

definition fiksDato_month :: "string \<Rightarrow> error + string" where
  "fiksDato_month dato =
     (case int_of_str (take 1 (drop 5 dato)) of
        Inl e \<Rightarrow> Inl e
      | Inr i \<Rightarrow>
          (let hjdat = i * 3; hjdat2 = str_int hjdat
           in if hjdat < 12 then Inr (take 4 dato @ ''-0'' @ hjdat2)
              else Inr (take 4 dato @ ''-'' @ hjdat2)))"

definition fiksDato :: "string \<Rightarrow> error + string" where
  "fiksDato dato =
     (case fiksDato_month dato of
        Inl e \<Rightarrow> Inl e
      | Inr dato' \<Rightarrow>
          (case date_range_M dato' of
             Inl e \<Rightarrow> Inl e
           | Inr d \<Rightarrow> Inr (str_timestamp d)))"

section \<open>prepare\_dataframe\<close>

text \<open>
  The date parsers of the pandas library are parameters: \<open>pd.to_datetime(x)\<close> and
  \<open>pd.to_datetime(x, format=f)\<close> on one cell.  On a column they are applied cell by
  cell, and the first failure is the failure of the call.
\<close>

record pandas =
  to_datetime :: "cell \<Rightarrow> error + cell"
  to_datetime_format :: "string \<Rightarrow> cell \<Rightarrow> error + cell"

fun map_err :: "('a \<Rightarrow> error + 'b) \<Rightarrow> 'a list \<Rightarrow> error + 'b list" where
  "map_err f [] = Inr []"
| "map_err f (x # xs) =
     (case f x of
        Inl e \<Rightarrow> Inl e
      | Inr y \<Rightarrow> (case map_err f xs of Inl e \<Rightarrow> Inl e | Inr ys \<Rightarrow> Inr (y # ys)))"

text \<open>\<open>df.columns[-2]\<close>.\<close>

definition columns_m2 :: "frame \<Rightarrow> error + string" where
  "columns_m2 df = (if length df < 2 then Inl IndexError else Inr (fst (df ! (length df - 2))))"

text \<open>\<open>df[name]\<close> and \<open>df[[a, b]]\<close>.\<close>

definition getitem :: "frame \<Rightarrow> string \<Rightarrow> error + cell list" where
  "getitem df name = (case map_of df name of None \<Rightarrow> Inl KeyError | Some col \<Rightarrow> Inr col)"

definition getitems :: "frame \<Rightarrow> string \<Rightarrow> string \<Rightarrow> error + frame" where
  "getitems df a b =
     (case getitem df a of
        Inl e \<Rightarrow> Inl e
      | Inr ca \<Rightarrow> (case getitem df b of Inl e \<Rightarrow> Inl e | Inr cb \<Rightarrow> Inr [(a, ca), (b, cb)]))"

text \<open>\<open>df.loc[0, name]\<close>.\<close>

definition loc0 :: "frame \<Rightarrow> string \<Rightarrow> error + cell" where
  "loc0 df name =
     (case getitem df name of
        Inl e \<Rightarrow> Inl e
      | Inr col \<Rightarrow> (case col of [] \<Rightarrow> Inl KeyError | c # cs \<Rightarrow> Inr c))"

text \<open>\<open>df.loc[:, name] = series\<close>.\<close>

definition setcol :: "frame \<Rightarrow> string \<Rightarrow> cell list \<Rightarrow> frame" where
  "setcol df name series = map (\<lambda>(n, col). if n = name then (n, series) else (n, col)) df"

text \<open>\<open>k in x\<close> for a one-character \<open>k\<close>: a \<open>TypeError\<close> when the cell is not a string.\<close>

fun chr_in :: "char \<Rightarrow> cell \<Rightarrow> error + bool" where
  "chr_in k (CStr s) = Inr (k \<in> set s)"
| "chr_in k c = Inl TypeError"

text \<open>\<open>series.str.replace(k, v)\<close> and \<open>series.add(v)\<close> on a column of objects: a cell that is
  not a string becomes the missing value.\<close>

fun str_replace_cell :: "char \<Rightarrow> string \<Rightarrow> cell \<Rightarrow> cell" where
  "str_replace_cell k v (CStr s) = CStr (replace_chr k v s)"
| "str_replace_cell k v c = CNaN"

fun add_cell :: "string \<Rightarrow> cell \<Rightarrow> cell" where
  "add_cell v (CStr s) = CStr (s @ v)"
| "add_cell v c = CNaN"

text \<open>\<open>series.apply(self.fiksDato)\<close>: slicing a cell that is not a string is a \<open>TypeError\<close>.\<close>

fun fiksDato_cell :: "cell \<Rightarrow> error + cell" where
  "fiksDato_cell (CStr s) = (case fiksDato s of Inl e \<Rightarrow> Inl e | Inr r \<Rightarrow> Inr (CStr r))"
| "fiksDato_cell c = Inl TypeError"

text \<open>The local variables of \<open>prepare_dataframe\<close> that a branch binds; \<open>None\<close> is unbound.\<close>

record locals =
  df_ret :: "frame option"
  freq :: "string option"
  freg :: "string option"
  periods :: "nat option"

text \<open>The four branches, each after its assignment to \<open>self.time\<close> (or \<open>time_col\<close>);
  \<open>t\<close> is the value of \<open>self.time\<close> the branch reads.\<close>

definition month_branch :: "pandas \<Rightarrow> frame \<Rightarrow> string \<Rightarrow> string \<Rightarrow> error + locals" where
  "month_branch pd df val_col t =
     (case getitems df t val_col of
        Inl e \<Rightarrow> Inl e
      | Inr ret \<Rightarrow>
          (case getitem df t of
             Inl e \<Rightarrow> Inl e
           | Inr col \<Rightarrow>
               (case map_err (to_datetime pd) (map (str_replace_cell (CHR ''M'') ''-'') col) of
                  Inl e \<Rightarrow> Inl e
                | Inr series \<Rightarrow>
                    Inr \<lparr>df_ret = Some (setcol ret t series), freq = Some ''M'', freg = None,
                         periods = Some 12\<rparr>)))"

definition week_branch :: "pandas \<Rightarrow> frame \<Rightarrow> string \<Rightarrow> string \<Rightarrow> error + locals" where
  "week_branch pd df val_col t =
     (case getitems df t val_col of
        Inl e \<Rightarrow> Inl e
      | Inr ret \<Rightarrow>
          (case getitem df t of
             Inl e \<Rightarrow> Inl e
           | Inr col \<Rightarrow>
               (case map_err (to_datetime_format pd ''%Y-%W-%w'')
                       (map (add_cell ''-1'') (map (str_replace_cell (CHR ''U'') ''-'') col)) of
                  Inl e \<Rightarrow> Inl e
                | Inr series \<Rightarrow>
                    Inr \<lparr>df_ret = Some (setcol ret t series), freq = None, freg = Some ''W'',
                         periods = Some 52\<rparr>)))"

definition quarter_branch :: "pandas \<Rightarrow> frame \<Rightarrow> string \<Rightarrow> string \<Rightarrow> error + locals" where
  "quarter_branch pd df val_col t =
     (case getitems df t val_col of
        Inl e \<Rightarrow> Inl e
      | Inr ret \<Rightarrow>
          (case getitem df t of
             Inl e \<Rightarrow> Inl e
           | Inr col \<Rightarrow>
               (case map_err (to_datetime pd) (map (str_replace_cell (CHR ''K'') ''-'') col) of
                  Inl e \<Rightarrow> Inl e
                | Inr series1 \<Rightarrow>
                    (case map_err fiksDato_cell col of
                       Inl e \<Rightarrow> Inl e
                     | Inr series2 \<Rightarrow>
                         Inr \<lparr>df_ret = Some (setcol (setcol ret t series1) t series2),
                              freq = Some ''q'', freg = None, periods = Some 4\<rparr>))))"

definition year_branch :: "pandas \<Rightarrow> frame \<Rightarrow> string \<Rightarrow> string \<Rightarrow> error + locals" where
  "year_branch pd df val_col t =
     (case getitems df t val_col of
        Inl e \<Rightarrow> Inl e
      | Inr ret \<Rightarrow>
          (case getitem df t of
             Inl e \<Rightarrow> Inl e
           | Inr col \<Rightarrow>
               (case map_err (to_datetime pd) col of
                  Inl e \<Rightarrow> Inl e
                | Inr series \<Rightarrow>
                    Inr \<lparr>df_ret = Some (setcol ret t series), freq = Some ''y'', freg = None,
                         periods = None\<rparr>)))"

text \<open>
  The body under one language: \<open>df_ret = df[[self.time, val_col]]\<close>, then the chain of
  tests on \<open>df_ret.loc[0, self.time]\<close>.  The column names are those of the language;
  \<open>quarter\<close> is \<open>None\<close> for the Norwegian branch, which assigns \<open>'kvartal'\<close> to the local
  \<open>time_col\<close> and leaves \<open>self.time\<close> alone.
\<close>

definition language_branch ::
  "pandas \<Rightarrow> frame \<Rightarrow> string \<Rightarrow> string \<Rightarrow> string \<Rightarrow> string option \<Rightarrow> string \<Rightarrow> session
     \<Rightarrow> (error + locals) \<times> session" where
  "language_branch pd df val_col month week quarter year self =
     (case time self of
        None \<Rightarrow> (Inl TypeError, self)
      | Some t0 \<Rightarrow>
          (case getitems df t0 val_col of
             Inl e \<Rightarrow> (Inl e, self)
           | Inr ret0 \<Rightarrow>
               (case loc0 ret0 t0 of
                  Inl e \<Rightarrow> (Inl e, self)
                | Inr c \<Rightarrow>
                    (case chr_in (CHR ''M'') c of
                       Inl e \<Rightarrow> (Inl e, self)
                     | Inr is_month \<Rightarrow>
                         if is_month
                         then (month_branch pd df val_col month, self\<lparr>time := Some month\<rparr>)
                         else if chr_in (CHR ''U'') c = Inr True
                         then (week_branch pd df val_col week, self\<lparr>time := Some week\<rparr>)
                         else if chr_in (CHR ''K'') c = Inr True
                         then (case quarter of
                                 None \<Rightarrow> (quarter_branch pd df val_col t0, self)
                               | Some q \<Rightarrow>
                                   (quarter_branch pd df val_col q, self\<lparr>time := Some q\<rparr>))
                         else (year_branch pd df val_col year, self\<lparr>time := Some year\<rparr>)))))"

text \<open>
  \<open>prepare_dataframe\<close>.  Neither language branch runs for a language other than \<open>'no'\<close>
  and \<open>'en'\<close>, which leaves every local unbound.  The last two statements rename the
  columns of \<open>df_ret\<close> and return \<open>[df_ret, freq, periods]\<close>; reading an unbound local
  raises \<open>UnboundLocalError\<close>.
\<close>

definition prepare_dataframe ::
  "pandas \<Rightarrow> frame \<Rightarrow> string \<Rightarrow> session \<Rightarrow> (error + frame \<times> string \<times> nat) \<times> session" where
  "prepare_dataframe pd df val_col self =
     (case columns_m2 df of
        Inl e \<Rightarrow> (Inl e, self)
      | Inr time_col \<Rightarrow>
          (let self1 = self\<lparr>time := Some time_col\<rparr>;
               (r, self2) =
                 (if language self1 = ''no''
                  then language_branch pd df val_col [CHR ''m'', CHR 0xE5, CHR ''n'', CHR ''e'', CHR ''d'']
                         ''uke'' None [CHR 0xE5, CHR ''r''] self1
                  else if language self1 = ''en''
                  then language_branch pd df val_col ''month'' ''week'' (Some ''quarter'') ''year'' self1
                  else (Inr \<lparr>df_ret = None, freq = None, freg = None, periods = None\<rparr>, self1))
           in case r of
                Inl e \<Rightarrow> (Inl e, self2)
              | Inr l \<Rightarrow>
                  (case df_ret l of
                     None \<Rightarrow> (Inl UnboundLocalError, self2)
                   | Some ret \<Rightarrow>
                       (if length ret \<noteq> 2 then (Inl ValueError, self2)
                        else
                          (case freq l of
                             None \<Rightarrow> (Inl UnboundLocalError, self2)
                           | Some f \<Rightarrow>
                               (case periods l of
                                  None \<Rightarrow> (Inl UnboundLocalError, self2)
                                | Some p \<Rightarrow>
                                    (Inr ([(''ds'', snd (ret ! 0)), (''y'', snd (ret ! 1))], f, p),
                                     self2)))))))"

section \<open>get\_json\<close>

text \<open>
  \<open>repr\<close> of a string, as \<open>str(a_list)\<close> writes each string element.  The quote is the
  double quote when the string holds a single quote and no double quote, the single
  quote otherwise; the backslash and that quote get a backslash, tab, newline and
  return become \<open>\t\<close>, \<open>\n\<close>, \<open>\r\<close>, and any other character that is not printable
  becomes \<open>\xhh\<close>.  Below 256 the printable characters are \<open>0x20\<close> to \<open>0x7e\<close> and
  \<open>0xa1\<close> to \<open>0xff\<close> without \<open>0xad\<close>.
\<close>

definition is_printable :: "char \<Rightarrow> bool" where
  "is_printable c =
     ((32 \<le> (of_char c :: nat) \<and> (of_char c :: nat) < 127)
      \<or> (161 \<le> (of_char c :: nat) \<and> (of_char c :: nat) \<noteq> 173))"

definition hex_chr :: "nat \<Rightarrow> char" where
  "hex_chr d = ''0123456789abcdef'' ! d"

definition repr_chr :: "char \<Rightarrow> char \<Rightarrow> string" where
  "repr_chr q c =
     (if c = q \<or> c = CHR 0x5C then [CHR 0x5C, c]
      else if c = CHR 0x09 then [CHR 0x5C, CHR ''t'']
      else if c = CHR 0x0A then [CHR 0x5C, CHR ''n'']
      else if c = CHR 0x0D then [CHR 0x5C, CHR ''r'']
      else if is_printable c then [c]
      else [CHR 0x5C, CHR ''x'', hex_chr (of_char c div 16), hex_chr (of_char c mod 16)])"

definition py_repr :: "string \<Rightarrow> string" where
  "py_repr s =
     (let q = (if CHR 0x27 \<in> set s \<and> CHR 0x22 \<notin> set s then CHR 0x22 else CHR 0x27)
      in [q] @ concat (map (repr_chr q) s) @ [q])"

fun join :: "string \<Rightarrow> string list \<Rightarrow> string" where
  "join sep [] = []"
| "join sep [x] = x"
| "join sep (x # y # ys) = x @ sep @ join sep (y # ys)"

text \<open>\<open>str(xs)\<close> for a list of strings.\<close>

definition py_str_list :: "string list \<Rightarrow> string" where
  "py_str_list xs = ''['' @ join '', '' (map py_repr xs) @ '']''"

text \<open>
  One turn of the loop of \<open>get_json\<close>: the text of the entry of variable \<open>var\<close> for the
  selected values \<open>value\<close> of its widget, single quotes replaced by double quotes.
\<close>

definition query_element :: "variable \<Rightarrow> string list \<Rightarrow> string" where
  \<open>query_element var value =
     replace_chr (CHR 0x27) [CHR 0x22]
       (''{"code": "'' @ v_code var @ ''", "selection": {"filter": "item", "values": ''
          @ py_str_list value @ '' }}'')\<close>

text \<open>
  The loop \<open>for x in var_list\<close> over the widgets of the tab, from index \<open>x\<close> on:
  \<open>self.variables[x]\<close> is a \<open>TypeError\<close> when \<open>self.variables\<close> is \<open>None\<close> and an
  \<open>IndexError\<close> when the list is too short.
\<close>

fun query_elements :: "variable list option \<Rightarrow> widget list \<Rightarrow> nat \<Rightarrow> error + string list" where
  "query_elements vars [] x = Inr []"
| "query_elements vars (w # ws) x =
     (case vars of
        None \<Rightarrow> Inl TypeError
      | Some vs \<Rightarrow>
          (if x < length vs
           then (case query_elements vars ws (Suc x) of
                   Inl e \<Rightarrow> Inl e
                 | Inr es \<Rightarrow> Inr (query_element (vs ! x) (w_value w) # es))
           else Inl IndexError))"

text \<open>The text of the query: the entries, their quotes removed, inside the fixed frame.\<close>

definition query_text :: "string list \<Rightarrow> string" where
  \<open>query_text es =
     ''{"query": '' @ replace_chr (CHR 0x27) [] (py_str_list es)
       @ '' , "response": {"format": "json-stat" }}''\<close>

subsection \<open>ast.literal\_eval\<close>

text \<open>
  \<open>ast.literal_eval\<close>, a function of the Python library, on the literals made of
  dictionary and list displays and of string literals in single or double quotes with the
  escapes \<open>\\\<close>, \<open>\'\<close>, \<open>\"\<close>, \<open>\n\<close>, \<open>\t\<close>, \<open>\r\<close>, separated by spaces.  Any other
  literal (numbers, names, tuples, sets, triple-quoted or prefixed or adjacent strings,
  other escapes) is outside this model and reported as \<open>Unmodelled\<close>.  The text is cut
  into tokens by a state machine that reads one character at a time; the tokens drive a
  stack machine.
\<close>

datatype token =
  TLBrace | TRBrace | TLBrack | TRBrack | TColon | TComma | TStr string | TErr error

datatype lexstate =
    LOut
  | LOpen char
  | LEmpty char
  | LStr char string
  | LEsc char string
  | LStop

text \<open>Outside a string.\<close>

definition lstep_out :: "char \<Rightarrow> lexstate \<times> token list" where
  "lstep_out c =
     (if c = CHR '' '' \<or> c = CHR 0x09 then (LOut, [])
      else if c = CHR ''{'' then (LOut, [TLBrace])
      else if c = CHR ''}'' then (LOut, [TRBrace])
      else if c = CHR ''['' then (LOut, [TLBrack])
      else if c = CHR '']'' then (LOut, [TRBrack])
      else if c = CHR '':'' then (LOut, [TColon])
      else if c = CHR '','' then (LOut, [TComma])
      else if c = CHR 0x22 \<or> c = CHR 0x27 then (LOpen c, [])
      else (LStop, [TErr Unmodelled]))"

text \<open>Inside a string opened by \<open>q\<close>, with the characters read so far in reverse.\<close>

definition lstep_str :: "char \<Rightarrow> string \<Rightarrow> char \<Rightarrow> lexstate \<times> token list" where
  "lstep_str q acc c =
     (if c = q then (LOut, [TStr (rev acc)])
      else if c = CHR 0x5C then (LEsc q acc, [])
      else if c = CHR 0x0A \<or> c = CHR 0x0D then (LStop, [TErr SyntaxError])
      else if c = CHR 0x00 then (LStop, [TErr Unmodelled])
      else (LStr q (c # acc), []))"

definition lstep_esc :: "char \<Rightarrow> string \<Rightarrow> char \<Rightarrow> lexstate \<times> token list" where
  "lstep_esc q acc c =
     (if c = CHR 0x5C \<or> c = CHR 0x27 \<or> c = CHR 0x22 then (LStr q (c # acc), [])
      else if c = CHR ''n'' then (LStr q (CHR 0x0A # acc), [])
      else if c = CHR ''t'' then (LStr q (CHR 0x09 # acc), [])
      else if c = CHR ''r'' then (LStr q (CHR 0x0D # acc), [])
      else (LStop, [TErr Unmodelled]))"

text \<open>
  One character.  After the opening quote a second quote is either the empty string or
  the start of a triple-quoted string, which the next character decides.
\<close>

fun lstep :: "lexstate \<Rightarrow> char \<Rightarrow> lexstate \<times> token list" where
  "lstep LOut c = lstep_out c"
| "lstep (LOpen q) c = (if c = q then (LEmpty q, []) else lstep_str q [] c)"
| "lstep (LEmpty q) c =
     (if c = q then (LStop, [TErr Unmodelled])
      else (fst (lstep_out c), TStr [] # snd (lstep_out c)))"
| "lstep (LStr q acc) c = lstep_str q acc c"
| "lstep (LEsc q acc) c = lstep_esc q acc c"
| "lstep LStop c = (LStop, [])"

fun lend :: "lexstate \<Rightarrow> token list" where
  "lend LOut = []"
| "lend (LEmpty q) = [TStr []]"
| "lend LStop = []"
| "lend l = [TErr SyntaxError]"

fun tokenize :: "lexstate \<Rightarrow> string \<Rightarrow> token list" where
  "tokenize l [] = lend l"
| "tokenize l (c # cs) = snd (lstep l c) @ tokenize (fst (lstep l c)) cs"

text \<open>
  The stack machine.  A frame is an open list with its items in reverse, an open
  dictionary waiting for a key, or an open dictionary holding a key and waiting for its
  value.  The mode says what may come next: a value (or the closing bracket of the open
  display), a comma or closing bracket, or the colon after a key.
\<close>

datatype pframe = FList "pyval list" | FDictK "(pyval \<times> pyval) list"
  | FDictV "(pyval \<times> pyval) list" pyval

datatype pmode = PVal | PAfter | PColon | PDone pyval | PFail error

type_synonym pstate = "pmode \<times> pframe list"

text \<open>A finished value goes to the display on top of the stack; a dictionary takes a
  repeated key as \<open>OrderedDict\<close> does.\<close>

fun reduce :: "pyval \<Rightarrow> pframe list \<Rightarrow> pstate" where
  "reduce v [] = (PDone v, [])"
| "reduce v (FList acc # st) = (PAfter, FList (v # acc) # st)"
| "reduce v (FDictK kvs # st) =
     (case v of PStr k \<Rightarrow> (PColon, FDictV kvs v # st) | _ \<Rightarrow> (PFail Unmodelled, st))"
| "reduce v (FDictV kvs k # st) = (PAfter, FDictK (od_set k v kvs) # st)"

fun pstep :: "pstate \<Rightarrow> token \<Rightarrow> pstate" where
  "pstep (PFail e, st) t = (PFail e, st)"
| "pstep (m, st) (TErr e) = (PFail e, st)"
| "pstep (PVal, st) (TStr s) = reduce (PStr s) st"
| "pstep (PVal, st) TLBrack = (PVal, FList [] # st)"
| "pstep (PVal, st) TLBrace = (PVal, FDictK [] # st)"
| "pstep (PVal, FList acc # st) TRBrack = reduce (PList (rev acc)) st"
| "pstep (PVal, FDictK kvs # st) TRBrace = reduce (PDict kvs) st"
| "pstep (PAfter, FList acc # st) TComma = (PVal, FList acc # st)"
| "pstep (PAfter, FList acc # st) TRBrack = reduce (PList (rev acc)) st"
| "pstep (PAfter, FDictK kvs # st) TComma = (PVal, FDictK kvs # st)"
| "pstep (PAfter, FDictK kvs # st) TRBrace = reduce (PDict kvs) st"
| "pstep (PColon, st) TColon = (PVal, st)"
| "pstep (PColon, st) TComma = (PFail Unmodelled, st)"
| "pstep (PColon, st) TRBrace = (PFail Unmodelled, st)"
| "pstep (m, st) (TStr s) = (PFail Unmodelled, st)"
| "pstep (m, st) t = (PFail SyntaxError, st)"

fun run :: "pstate \<Rightarrow> token list \<Rightarrow> error + pyval" where
  "run (PDone v, st) [] = Inr v"
| "run (PFail e, st) [] = Inl e"
| "run (m, st) [] = Inl SyntaxError"
| "run ps (t # ts) = run (pstep ps t) ts"

definition literal_eval :: "string \<Rightarrow> error + pyval" where
  "literal_eval s = run (PVal, []) (tokenize LOut s)"

text \<open>
  \<open>get_json(box, out)\<close>.  \<open>box\<close> defaults to \<open>None\<close>, whose attribute \<open>children\<close> does not
  exist.  The result is the dictionary, or the text when \<open>out\<close> is not \<open>'dict'\<close>.
\<close>

definition get_json :: "box option \<Rightarrow> string \<Rightarrow> session \<Rightarrow> error + pyval" where
  "get_json box_arg out_arg self =
     (case box_arg of
        None \<Rightarrow> Inl AttributeError
      | Some b \<Rightarrow>
          (case query_elements (variables self) (tab_children b) 0 of
             Inl e \<Rightarrow> Inl e
           | Inr es \<Rightarrow>
               (if out_arg = ''dict'' then literal_eval (query_text es)
                else Inr (PStr (query_text es)))))"

text \<open>
  The document the specification describes: one entry per variable, with the variable's
  code, the filter \<open>item\<close> and the selected values, and the response format.
\<close>

definition spec_entry :: "variable \<Rightarrow> string list \<Rightarrow> pyval" where
  "spec_entry var value =
     PDict [(PStr ''code'', PStr (v_code var)),
            (PStr ''selection'',
             PDict [(PStr ''filter'', PStr ''item''), (PStr ''values'', PList (map PStr value))])]"

definition spec_query :: "variable list \<Rightarrow> string list list \<Rightarrow> pyval" where
  "spec_query vars selected =
     PDict [(PStr ''query'', PList (map (\<lambda>(var, value). spec_entry var value) (zip vars selected))),
            (PStr ''response'', PDict [(PStr ''format'', PStr ''json-stat'')])]"







section \<open>read\_box\<close>

text \<open>The body of the \<open>try\<close> statement of \<open>read_box\<close>.\<close>

definition read_box_try :: "net \<Rightarrow> box option \<Rightarrow> state \<Rightarrow> (error + frame \<times> string) \<times> state" where
  "read_box_try nt from_box st =
     (case get_json from_box ''dict'' (client st) of
        Inl e \<Rightarrow> (Inl e, st)
      | Inr query \<Rightarrow>
          (case from_box of
             None \<Rightarrow> (Inl AttributeError, st)
           | Some b \<Rightarrow>
               (case post nt (url_text b) query st of
                  (Inl e, st1) \<Rightarrow> (Inl e, st1)
                | (Inr data, st1) \<Rightarrow>
                    (case rp_json data of
                       Inl e \<Rightarrow> (Inl e, st1)
                     | Inr label \<Rightarrow>
                         (case pl_frames label of
                            Inl e \<Rightarrow> (Inl e, st1)
                          | Inr results \<Rightarrow>
                              (case results of
                                 [] \<Rightarrow> (Inl IndexError, st1)
                               | r0 # rs \<Rightarrow>
                                   (case pl_label label of
                                      Inl e \<Rightarrow> (Inl e, st1)
                                    | Inr l \<Rightarrow> (Inr (r0, l), st1))))))))"

text \<open>
  \<open>read_box\<close>: the two handlers, \<open>except TypeError\<close> and the bare \<open>except\<close>, print the same
  line, and the function then returns \<open>None\<close>.
\<close>

definition read_box :: "net \<Rightarrow> box option \<Rightarrow> state \<Rightarrow> (error + (frame \<times> string) option) \<times> state" where
  "read_box nt from_box st =
     (case read_box_try nt from_box st of
        (Inr r, st1) \<Rightarrow> (Inr (Some r), st1)
      | (Inl e, st1) \<Rightarrow>
          (if e = TypeError
           then (Inr None, st1\<lparr>out := out st1 @ [''You must make choices in the box!'']\<rparr>)
           else (Inr None, st1\<lparr>out := out st1 @ [''You must make choices in the box!'']\<rparr>)))"

section \<open>Example inputs\<close>

definition example_vars :: "variable list" where
  "example_vars =
     [\<lparr>v_code = ''Region'', v_text = ''region'',
       v_values = [''0301'', ''1103''], v_valueTexts = [''Oslo'', ''Stavanger'']\<rparr>,
      \<lparr>v_code = ''Tid'', v_text = ''year'',
       v_values = [''2019'', ''2020''], v_valueTexts = [''2019'', ''2020'']\<rparr>]"

definition example_frame :: frame where
  "example_frame = [(''region'', [CStr ''Oslo'']), (''year'', [CStr ''2020'']), (''value'', [CNum 1])]"

text \<open>A server that answers every request.\<close>

definition example_net :: net where
  "example_net =
     \<lparr>n_read_json = (\<lambda>history url.
        Inr \<lparr>ti_title = ''Population'', ti_variables = example_vars\<rparr>),
      n_post = (\<lambda>history url query.
        Inr \<lparr>rp_json = Inr \<lparr>pl_frames = Inr [example_frame], pl_label = Inr ''Population''\<rparr>\<rparr>)\<rparr>"

definition example_state :: state where
  "example_state = \<lparr>client = init ''en'' ''http://data.ssb.no/api/v0'', calls = [], out = []\<rparr>"

definition example_url :: string where
  "example_url = ''http://data.ssb.no/api/v0/en/table/10714''"

text \<open>The state after \<open>get_variables('10714')\<close> on the fresh client.\<close>

definition example_resolved :: state where
  "example_resolved =
     \<lparr>client = (init ''en'' ''http://data.ssb.no/api/v0'')\<lparr>furl := Some example_url\<rparr>,
      calls = [Get example_url], out = []\<rparr>"

text \<open>
  The container \<open>select\<close> returns for the example table, nothing selected; the same with
  both regions selected; the client after \<open>select\<close>.  Then a table one of whose region
  values holds double quotes, that value selected.
\<close>

definition example_box :: box where "example_box = \<lparr>headline = ''Population'',
           tab_children =
             [\<lparr>w_options = [(''Oslo'', ''0301''), (''Stavanger'', ''1103'')], w_value = []\<rparr>,
              \<lparr>w_options = [(''2019'', ''2019''), (''2020'', ''2020'')], w_value = []\<rparr>],
           tab_titles = [''region'', ''year''],
           url_text = example_url\<rparr>"




definition example_selected :: state where
  "example_selected = example_resolved\<lparr>client := (client example_resolved)\<lparr>variables := Some example_vars\<rparr>,
                        calls := [Get example_url, Get example_url]\<rparr>"

section \<open>Properties of the search encoding\<close>










lemma encode_chr_table:
  "encode_chr (CHR 0xE6) = ''%C3%A6''" "encode_chr (CHR 0xC6) = ''%C3%86''"
  "encode_chr (CHR 0xF8) = ''%C3%B8''" "encode_chr (CHR 0xD8) = ''%C3%98''"
  "encode_chr (CHR 0xE5) = ''%C3%A5''" "encode_chr (CHR 0xC5) = ''%C3%85''"
  "encode_chr (CHR 0x22) = ''%22''" "encode_chr (CHR ''('') = ''%28''"
  "encode_chr (CHR '')'') = ''%29''" "encode_chr (CHR '' '') = ''%20''"
  by (simp_all add: encode_chr_def convert_def)

lemma encode_chr_other: "c \<notin> fst ` set convert \<Longrightarrow> encode_chr c = [c]"
  by (simp add: encode_chr_def convert_def)


section \<open>Properties of get\_variables and select\<close>

lemmas eval_defs = get_variables_def try_numb_def int_of_str_def strip_def is_space_def
  is_digit_def resolve_furl_def read_json_def example_state_def example_net_def init_def
  example_resolved_def example_url_def str_int_def digit_chr_def nat_of_digits_def
  digit_val_def Let_def

lemma str_nat_10714: "str_nat 10714 = ''10714''"
  by (simp add: str_nat.simps digit_chr_def)

lemma get_variables_example:
  "get_variables example_net (PStr ''10714'') example_state = (Inr example_vars, example_resolved)"
  by (simp add: eval_defs str_nat_10714)

text \<open>
  C3.  A table identifier that is not an integer is not rejected: the \<open>ValueError\<close> is
  caught, a line is printed and the function goes on.  On a fresh client it then fails
  with \<open>UnboundLocalError\<close> on the unbound \<open>numb\<close>; on a client whose \<open>furl\<close> is set it
  sends the request to the cached URL and returns that table's variables.  (And an
  identifier of five digits that starts with two zeros is cut down to its value.)
\<close>

theorem get_variables_non_numeric:
  "get_variables example_net (PStr ''abc'') example_state
     = (Inl UnboundLocalError, example_state\<lparr>out := [''table_id mus be of type integer'']\<rparr>)
   \<and> get_variables example_net (PStr ''abc'') example_resolved
     = (Inr example_vars,
        example_resolved\<lparr>calls := [Get example_url, Get example_url],
                          out := [''table_id mus be of type integer'']\<rparr>)
   \<and> furl (client (snd (get_variables example_net (PStr ''00123'') example_state)))
     = Some ''http://data.ssb.no/api/v0/en/table/123''"
  by (simp add: eval_defs str_nat.simps)

lemma get_variables_cached:
  assumes "furl (client st) = Some u"
  shows "furl (client (snd (get_variables nt t st))) = Some u"
    and "calls (snd (get_variables nt t st))
        = calls st @ (case try_numb t of Inl e \<Rightarrow> [] | Inr r \<Rightarrow> [Get u])"
  using assms
  by (auto simp: get_variables_def resolve_furl_def read_json_def split: sum.splits prod.splits)

lemma select_cached:
  assumes "furl (client st) = Some u"
  shows "furl (client (snd (select nt t st))) = Some u"
    and "calls (snd (select nt t st))
        = calls st @ (case fst (get_variables nt t st) of
                        Inl e \<Rightarrow> (case try_numb t of Inl e \<Rightarrow> [] | Inr r \<Rightarrow> [Get u])
                      | Inr r \<Rightarrow> [Get u, Get u])"
  using assms
  by (auto simp: select_def Let_def get_variables_def resolve_furl_def read_json_def
           split: sum.splits prod.splits option.splits)

lemma get_variables_first:
  assumes "furl (client st) = None" and "py_int table_id = Inr n"
    and "url = burl (client st) @ ''/'' @ language (client st) @ ''/table/''
               @ (if length (str_int n) = 4 then ''0'' @ str_int n else str_int n)"
  shows "furl (client (snd (get_variables nt table_id st))) = Some url"
    and "calls (snd (get_variables nt table_id st)) = calls st @ [Get url]"
  using assms
  by (auto simp: get_variables_def try_numb_def resolve_furl_def read_json_def Let_def
           split: sum.splits prod.splits)

text \<open>
  C5, as stated, fails: two calls of \<open>get_variables\<close> for the same table send two requests
  to the metadata endpoint.
\<close>

theorem get_variables_twice_two_requests:
  "calls (snd (get_variables example_net (PStr ''10714'')
          (snd (get_variables example_net (PStr ''10714'') example_state))))
   = [Get example_url, Get example_url]"
  by (simp add: eval_defs str_nat_10714)

text \<open>
  C5, amended.  What is cached is the URL, not the document: on a client whose \<open>furl\<close> is
  unset, the first \<open>get_variables\<close> call for an integer identifier formats the URL and
  stores it in \<open>furl\<close>, the second call for the same identifier leaves \<open>furl\<close> as it is,
  and each of the two calls sends one request to that URL.
\<close>

theorem get_variables_twice:
  assumes "furl (client st) = None" and "py_int table_id = Inr n"
    and "url = burl (client st) @ ''/'' @ language (client st) @ ''/table/''
               @ (if length (str_int n) = 4 then ''0'' @ str_int n else str_int n)"
    and "st1 = snd (get_variables nt table_id st)"
    and "st2 = snd (get_variables nt table_id st1)"
  shows "furl (client st1) = Some url \<and> furl (client st2) = Some url
       \<and> calls st1 = calls st @ [Get url]
       \<and> calls st2 = calls st @ [Get url, Get url]"
proof -
  have f1: "furl (client st1) = Some url" and c1: "calls st1 = calls st @ [Get url]"
    using get_variables_first [OF assms(1,2,3)] assms(4) by simp_all
  have t: "try_numb table_id
             = Inr (Some (if length (str_int n) = 4 then PStr (''0'' @ str_int n) else PInt n), [])"
    using assms(2) by (simp add: try_numb_def)
  have "furl (client st2) = Some url"
    using get_variables_cached(1) [OF f1] assms(5) by simp
  moreover have "calls st2 = calls st1 @ [Get url]"
    using get_variables_cached(2) [OF f1, of nt table_id] assms(5) t by simp
  ultimately show ?thesis using f1 c1 by simp
qed

theorem get_variables_twice_witness:
  "furl (client (snd (get_variables example_net (PStr ''10714'') example_state)))
     = Some example_url
   \<and> furl (client (snd (get_variables example_net (PStr ''10714'')
              (snd (get_variables example_net (PStr ''10714'') example_state)))))
     = Some example_url
   \<and> calls (snd (get_variables example_net (PStr ''10714'')
              (snd (get_variables example_net (PStr ''10714'') example_state))))
      = [Get example_url, Get example_url]"
proof -
  have a: "furl (client example_state) = None"
    by (simp add: example_state_def init_def)
  have b: "py_int (PStr ''10714'') = Inr 10714"
    by (simp add: eval_defs)
  have c: "example_url
             = burl (client example_state) @ ''/'' @ language (client example_state) @ ''/table/''
               @ (if length (str_int 10714) = 4 then ''0'' @ str_int 10714 else str_int 10714)"
    by (simp add: eval_defs str_nat_10714)
  have d: "calls example_state = []"
    by (simp add: example_state_def)
  show ?thesis
    using get_variables_twice [OF a b c refl refl, of example_net] d by simp
qed

subsection \<open>The option pairs of the selection widgets\<close>

lemma od_set_fresh: "k \<notin> fst ` set d \<Longrightarrow> od_set k v d = d @ [(k, v)]"
  by (induction d) auto

lemma foldl_od_set_distinct:
  "distinct (map fst ps) \<Longrightarrow> fst ` set d \<inter> fst ` set ps = {} \<Longrightarrow>
   foldl (\<lambda>d (k, v). od_set k v d) d ps = d @ ps"
proof (induction ps arbitrary: d)
  case Nil
  then show ?case by simp
next
  case (Cons p ps)
  obtain k v where p: "p = (k, v)" by (cases p)
  have "od_set k v d = d @ [(k, v)]"
    using Cons.prems(2) p by (intro od_set_fresh) auto
  moreover have "foldl (\<lambda>d (k, v). od_set k v d) (d @ [(k, v)]) ps = (d @ [(k, v)]) @ ps"
    using Cons.prems p by (intro Cons.IH) auto
  ultimately show ?case using p by simp
qed

lemma OrderedDict_distinct: "distinct (map fst ps) \<Longrightarrow> OrderedDict ps = ps"
  using foldl_od_set_distinct [of ps "[]"] by (simp add: OrderedDict_def)

lemma OrderedDict_zip: "distinct ks \<Longrightarrow> OrderedDict (zip ks vs) = zip ks vs"
  by (rule OrderedDict_distinct) (simp add: map_fst_zip_take)

lemma select_box:
  assumes "select nt table_id st = (Inr b, st')"
  shows "\<exists>vars. variables (client st') = Some vars
          \<and> tab_children b
              = map (\<lambda>opts. \<lparr>w_options = opts, w_value = []\<rparr>) (option_list vars)
          \<and> tab_titles b = map v_text vars \<and> furl (client st') = Some (url_text b)"
  using assms
  by (auto simp: select_def Let_def read_json_def
           split: sum.splits prod.splits option.splits if_splits)

lemma select_example:
  "select example_net (PInt 10714) example_state = (Inr example_box, example_selected)"
  by (simp add: select_def eval_defs str_nat_10714 option_list_def OrderedDict_def
        example_vars_def example_box_def example_selected_def)

text \<open>
  C7, as stated, fails for a repeated display label: the options are an \<open>OrderedDict\<close>
  keyed by label, so of the labels A, B, A with values 1, 2, 3 two options remain, and
  the first pairs label A with value 3, not with value 1.
\<close>

theorem option_list_repeated_label:
  "option_list [\<lparr>v_code = ''c'', v_text = ''t'', v_values = [''1'', ''2'', ''3''],
                 v_valueTexts = [''A'', ''B'', ''A'']\<rparr>]
   = [[(''A'', ''3''), (''B'', ''2'')]]"
  by (simp add: option_list_def OrderedDict_def)

text \<open>
  C7, amended.  For a variable whose display labels are pairwise distinct, the options of
  its widget in the container returned by \<open>select\<close> are the labels zipped with the
  values, in order: option \<open>i\<close> is the pair of \<open>valueTexts[i]\<close> and \<open>values[i]\<close>.
\<close>

theorem select_options_aligned:
  assumes "select nt table_id st = (Inr b, st')"
    and "variables (client st') = Some vars"
    and "j < length vars"
    and "distinct (v_valueTexts (vars ! j))"
  shows "j < length (tab_children b)
     \<and> w_options (tab_children b ! j) = zip (v_valueTexts (vars ! j)) (v_values (vars ! j))
     \<and> (\<forall>i < length (w_options (tab_children b ! j)).
           w_options (tab_children b ! j) ! i
             = (v_valueTexts (vars ! j) ! i, v_values (vars ! j) ! i))"
proof -
  have t: "tab_children b
             = map (\<lambda>opts. \<lparr>w_options = opts, w_value = []\<rparr>) (option_list vars)"
    using select_box [OF assms(1)] assms(2) by auto
  have len: "j < length (tab_children b)"
    using assms(3) by (simp add: t option_list_def)
  have opts: "w_options (tab_children b ! j)
                = zip (v_valueTexts (vars ! j)) (v_values (vars ! j))"
    using assms(3,4) by (simp add: t option_list_def OrderedDict_zip)
  show ?thesis using len opts by simp
qed

theorem select_options_aligned_witness:
  "select example_net (PInt 10714) example_state = (Inr example_box, example_selected)
   \<and> distinct (v_valueTexts (example_vars ! 0))
   \<and> w_options (tab_children example_box ! 0) = [(''Oslo'', ''0301''), (''Stavanger'', ''1103'')]
   \<and> w_options (tab_children example_box ! 0) ! 1
       = (v_valueTexts (example_vars ! 0) ! 1, v_values (example_vars ! 0) ! 1)"
proof -
  have v: "variables (client example_selected) = Some example_vars"
    by (simp add: example_selected_def)
  have j: "0 < length example_vars" and d: "distinct (v_valueTexts (example_vars ! 0))"
    by (simp_all add: example_vars_def)
  show ?thesis
    using select_options_aligned [OF select_example v j d] select_example d
    by (simp add: example_vars_def)
qed

section \<open>Decimal strings\<close>

lemma digit_chr_props:
  assumes "d < 10"
  shows "is_digit (digit_chr d)" and "digit_val (digit_chr d) = d"
    and "\<not> is_space (digit_chr d)" and "digit_chr d \<noteq> CHR ''_''"
    and "digit_chr d \<noteq> CHR ''-''" and "digit_chr d \<noteq> CHR ''+''"
proof -
  have "d \<in> {0, 1, 2, 3, 4, 5, 6, 7, 8, 9}" using assms by auto
  then show "is_digit (digit_chr d)" and "digit_val (digit_chr d) = d"
    and "\<not> is_space (digit_chr d)" and "digit_chr d \<noteq> CHR ''_''"
    and "digit_chr d \<noteq> CHR ''-''" and "digit_chr d \<noteq> CHR ''+''"
    by (auto simp: digit_chr_def is_digit_def digit_val_def is_space_def)
qed

lemma str_nat_digit: "n < 10 \<Longrightarrow> str_nat n = [digit_chr n]"
  by (simp add: str_nat.simps)

lemma str_nat_step: "10 \<le> n \<Longrightarrow> str_nat n = str_nat (n div 10) @ [digit_chr (n mod 10)]"
  by (subst str_nat.simps) simp

lemma str_nat_not_Nil: "str_nat n \<noteq> []"
  by (subst str_nat.simps) simp

lemma all_digits_str_nat: "list_all is_digit (str_nat n)"
proof (induction n rule: str_nat.induct)
  case (1 n)
  show ?case
  proof (cases "n < 10")
    case True
    then show ?thesis by (simp add: str_nat_digit digit_chr_props)
  next
    case False
    then show ?thesis using 1 by (simp add: str_nat_step digit_chr_props)
  qed
qed

lemma nat_of_digits_snoc: "nat_of_digits (ds @ [c]) = 10 * nat_of_digits ds + digit_val c"
  by (simp add: nat_of_digits_def)

lemma nat_of_digits_str_nat: "nat_of_digits (str_nat n) = n"
proof (induction n rule: str_nat.induct)
  case (1 n)
  show ?case
  proof (cases "n < 10")
    case True
    then show ?thesis by (simp add: str_nat_digit nat_of_digits_def digit_chr_props)
  next
    case False
    then show ?thesis using 1 by (simp add: str_nat_step nat_of_digits_snoc digit_chr_props)
  qed
qed

lemma length_str_nat_4: "1000 \<le> n \<Longrightarrow> n \<le> 9999 \<Longrightarrow> length (str_nat n) = 4"
proof -
  assume a: "1000 \<le> n" "n \<le> 9999"
  have 1: "str_nat n = str_nat (n div 10) @ [digit_chr (n mod 10)]"
    using a by (intro str_nat_step) simp
  have 2: "str_nat (n div 10) = str_nat (n div 10 div 10) @ [digit_chr (n div 10 mod 10)]"
    using a by (intro str_nat_step) simp
  have 3: "str_nat (n div 10 div 10) = str_nat (n div 10 div 10 div 10) @ [digit_chr (n div 10 div 10 mod 10)]"
    using a by (intro str_nat_step) simp
  have 4: "str_nat (n div 10 div 10 div 10) = [digit_chr (n div 10 div 10 div 10)]"
    using a by (intro str_nat_digit) simp
  show ?thesis by (simp add: 1 2 3 4)
qed

lemma length_str_nat_5: "10000 \<le> n \<Longrightarrow> n \<le> 99999 \<Longrightarrow> length (str_nat n) = 5"
proof -
  assume a: "10000 \<le> n" "n \<le> 99999"
  have 1: "str_nat n = str_nat (n div 10) @ [digit_chr (n mod 10)]"
    using a by (intro str_nat_step) simp
  have "1000 \<le> n div 10" "n div 10 \<le> 9999" using a by simp_all
  then show ?thesis using length_str_nat_4 [of "n div 10"] by (simp add: 1)
qed


subsection \<open>Reading a decimal string back, and the padding of the table identifier\<close>

lemma is_digit_not_space: "is_digit c \<Longrightarrow> \<not> is_space c"
  by (auto simp: is_digit_def is_space_def)

lemma digits_ok_all_digits: "ds \<noteq> [] \<Longrightarrow> list_all is_digit ds \<Longrightarrow> digits_ok ds"
proof (induction ds rule: digits_ok.induct)
  case 1
  then show ?case by simp
next
  case (2 c)
  then show ?case by simp
next
  case (3 c d cs)
  then have "d \<noteq> CHR ''_''" by (auto simp: is_digit_def)
  then show ?case using 3 by simp
qed

lemma strip_digits: "list_all is_digit ds \<Longrightarrow> strip ds = ds"
proof -
  assume a: "list_all is_digit ds"
  then have n: "\<forall>c \<in> set ds. \<not> is_space c"
    by (simp add: list_all_iff is_digit_not_space)
  have 1: "dropWhile is_space ds = ds"
    using n by (cases ds) simp_all
  have 2: "dropWhile is_space (rev ds) = rev ds"
    using n by (cases "ds = []") (simp_all add: dropWhile_eq_self_iff hd_rev)
  show ?thesis by (simp add: strip_def 1 2)
qed

lemma filter_digits: "list_all is_digit ds \<Longrightarrow> filter (\<lambda>c. c \<noteq> CHR ''_'') ds = ds"
  by (induction ds) (auto simp: is_digit_def)

lemma hd_digit_no_sign:
  "ds \<noteq> [] \<Longrightarrow> list_all is_digit ds \<Longrightarrow> hd ds \<noteq> CHR ''-'' \<and> hd ds \<noteq> CHR ''+''"
  by (cases ds) (auto simp: is_digit_def)

lemma int_of_str_str_nat: "int_of_str (str_nat n) = Inr (int n)"
proof -
  have d: "list_all is_digit (str_nat n)" by (rule all_digits_str_nat)
  have ne: "str_nat n \<noteq> []" by (rule str_nat_not_Nil)
  show ?thesis
    using hd_digit_no_sign [OF ne d]
    by (simp add: int_of_str_def strip_digits [OF d] Let_def digits_ok_all_digits [OF ne d]
          filter_digits [OF d] nat_of_digits_str_nat)
qed

lemma str_int_nat: "str_int (int n) = str_nat n"
  by (simp add: str_int_def)

text \<open>
  The padding of \<open>get_variables\<close>: an integer of four digits, given as a number or as
  its decimal string, becomes five characters with a leading zero, and an integer of
  five digits is left as it is.
\<close>

lemma try_numb_four_digits:
  assumes "1000 \<le> n" and "n \<le> 9999"
  shows "try_numb (PInt (int n)) = Inr (Some (PStr (''0'' @ str_nat n)), [])"
    and "try_numb (PStr (str_nat n)) = Inr (Some (PStr (''0'' @ str_nat n)), [])"
    and "length (''0'' @ str_nat n) = 5"
  using length_str_nat_4 [OF assms]
  by (simp_all add: try_numb_def int_of_str_str_nat str_int_nat)

lemma try_numb_five_digits:
  assumes "10000 \<le> n" and "n \<le> 99999"
  shows "try_numb (PInt (int n)) = Inr (Some (PInt (int n)), [])"
    and "try_numb (PStr (str_nat n)) = Inr (Some (PInt (int n)), [])"
    and "py_format (PInt (int n)) = str_nat n" and "length (str_nat n) = 5"
  using length_str_nat_5 [OF assms]
  by (simp_all add: try_numb_def int_of_str_str_nat str_int_nat)

section \<open>Properties of fiksDato\<close>


lemma take_drop_dato:
  assumes "length y = 4"
  shows "take 4 (y @ sep # r) = y" and "take 1 (drop 5 (y @ sep # r)) = take 1 r"
  using assms by simp_all








section \<open>Properties of prepare\_dataframe\<close>

text \<open>
  C1.  On an English-language client, the frame with the time column \<open>week\<close> holding
  \<open>2020U15\<close> does not come back reshaped: the week branch assigns \<open>'W'\<close> to \<open>freg\<close>, so
  \<open>freq\<close> is unbound at the \<open>return\<close>, and the call ends in \<open>UnboundLocalError\<close>
  (or earlier, in the error of the date parser), whatever the date parser answers.
\<close>

theorem prepare_dataframe_week_raises:
  "prepare_dataframe pd [(''week'', [CStr ''2020U15'']), (''value'', [CNum 1])] ''value''
     (init ''en'' base_url)
   = (case to_datetime_format pd ''%Y-%W-%w'' (CStr ''2020-15-1'') of
        Inl e \<Rightarrow> Inl e
      | Inr d \<Rightarrow> Inl UnboundLocalError,
      (init ''en'' base_url)\<lparr>time := Some ''week''\<rparr>)"
  by (simp add: prepare_dataframe_def columns_m2_def init_def language_branch_def getitems_def
        getitem_def loc0_def week_branch_def setcol_def Let_def split: sum.splits)


text \<open>
  C6.  On an English-language client, the frame with the time column \<open>year\<close> holding
  \<open>2020\<close> does not come back reshaped: the year branch binds no \<open>periods\<close>, so the
  \<open>return\<close> ends in \<open>UnboundLocalError\<close> (or the call ends earlier, in the error of the
  date parser), whatever the date parser answers.
\<close>

theorem prepare_dataframe_year_raises:
  "prepare_dataframe pd [(''year'', [CStr ''2020'']), (''value'', [CNum 1])] ''value''
     (init ''en'' base_url)
   = (case to_datetime pd (CStr ''2020'') of
        Inl e \<Rightarrow> Inl e
      | Inr d \<Rightarrow> Inl UnboundLocalError,
      (init ''en'' base_url)\<lparr>time := Some ''year''\<rparr>)"
  by (simp add: prepare_dataframe_def columns_m2_def init_def language_branch_def getitems_def
        getitem_def loc0_def year_branch_def setcol_def Let_def split: sum.splits)

text \<open>
  Whenever \<open>prepare_dataframe\<close> returns, it came through the month or the quarter branch:
  the frequency is \<open>M\<close> with 12 periods or \<open>q\<close> with 4.
\<close>

lemma branch_locals:
  "month_branch pd df v t = Inr l \<Longrightarrow> freq l = Some ''M'' \<and> periods l = Some 12"
  "week_branch pd df v t = Inr l \<Longrightarrow> freq l = None"
  "quarter_branch pd df v t = Inr l \<Longrightarrow> freq l = Some ''q'' \<and> periods l = Some 4"
  "year_branch pd df v t = Inr l \<Longrightarrow> periods l = None"
  by (auto simp: month_branch_def week_branch_def quarter_branch_def year_branch_def
           split: sum.splits)

lemma language_branch_locals:
  assumes "language_branch pd df v m w q y self = (Inr l, self')"
  shows "(freq l = Some ''M'' \<and> periods l = Some 12) \<or> (freq l = Some ''q'' \<and> periods l = Some 4)
         \<or> freq l = None \<or> periods l = None"
  using assms
  by (auto simp: language_branch_def split: sum.splits option.splits if_splits
           dest: branch_locals)

lemma prepare_dataframe_returns:
  assumes "prepare_dataframe pd df val_col self = (Inr (ret, f, p), self')"
  shows "(f = ''M'' \<and> p = 12) \<or> (f = ''q'' \<and> p = 4)"
proof -
  obtain time_col where tc: "columns_m2 df = Inr time_col"
    using assms by (auto simp: prepare_dataframe_def split: sum.splits)
  define self1 where "self1 = self\<lparr>time := Some time_col\<rparr>"
  define rs where "rs =
     (if language self1 = ''no''
      then language_branch pd df val_col [CHR ''m'', CHR 0xE5, CHR ''n'', CHR ''e'', CHR ''d'']
             ''uke'' None [CHR 0xE5, CHR ''r''] self1
      else if language self1 = ''en''
      then language_branch pd df val_col ''month'' ''week'' (Some ''quarter'') ''year'' self1
      else (Inr \<lparr>df_ret = None, freq = None, freg = None, periods = None\<rparr>, self1))"
  obtain r self2 where rs: "rs = (r, self2)" by (cases rs)
  have pd_eq: "prepare_dataframe pd df val_col self =
     (case r of
        Inl e \<Rightarrow> (Inl e, self2)
      | Inr l \<Rightarrow>
          (case df_ret l of
             None \<Rightarrow> (Inl UnboundLocalError, self2)
           | Some ret \<Rightarrow>
               (if length ret \<noteq> 2 then (Inl ValueError, self2)
                else
                  (case freq l of
                     None \<Rightarrow> (Inl UnboundLocalError, self2)
                   | Some f \<Rightarrow>
                       (case periods l of
                          None \<Rightarrow> (Inl UnboundLocalError, self2)
                        | Some p \<Rightarrow>
                            (Inr ([(''ds'', snd (ret ! 0)), (''y'', snd (ret ! 1))], f, p),
                             self2))))))"
    using rs unfolding prepare_dataframe_def tc rs_def self1_def by (simp add: Let_def)
  obtain l where l: "r = Inr l" and fl: "freq l = Some f" and pl: "periods l = Some p"
    using assms unfolding pd_eq by (auto split: sum.splits option.splits if_splits)
  have "(freq l = Some ''M'' \<and> periods l = Some 12) \<or> (freq l = Some ''q'' \<and> periods l = Some 4)
         \<or> freq l = None \<or> periods l = None"
  proof (cases "language self1 = ''no''")
    case True
    then show ?thesis using rs l language_branch_locals unfolding rs_def by auto
  next
    case False
    show ?thesis
    proof (cases "language self1 = ''en''")
      case True
      then show ?thesis using rs l False language_branch_locals unfolding rs_def by auto
    next
      case False2: False
      then show ?thesis using rs l False unfolding rs_def by auto
    qed
  qed
  then show ?thesis using fl pl by auto
qed

text \<open>The month and the quarter branch on one row, for any date parser that accepts the
  cell.\<close>

lemma prepare_dataframe_quarter_example:
  assumes "to_datetime pd (CStr ''2020-2'') = Inr d"
  shows "prepare_dataframe pd [(''quarter'', [CStr ''2020K2'']), (''value'', [CNum 1])] ''value''
           (init ''en'' base_url)
         = (Inr ([(''ds'', [CStr ''2020-06-30 00:00:00'']), (''y'', [CNum 1])], ''q'', 4),
            (init ''en'' base_url)\<lparr>time := Some ''quarter''\<rparr>)"
proof -
  have f: "fiksDato ''2020K2'' = Inr ''2020-06-30 00:00:00''"
    by (simp add: fiksDato_def fiksDato_month_def int_of_str_def strip_def is_space_def
          is_digit_def nat_of_digits_def digit_val_def Let_def str_int_def str_nat.simps
          digit_chr_def date_range_M_def str_timestamp_def zfill_def days_in_month_def)
  show ?thesis
    using assms
    by (simp add: prepare_dataframe_def columns_m2_def init_def language_branch_def getitems_def
        getitem_def loc0_def quarter_branch_def setcol_def Let_def f)
qed

lemma prepare_dataframe_month_example:
  assumes "to_datetime pd (CStr ''2020-03'') = Inr d"
  shows "prepare_dataframe pd [(''month'', [CStr ''2020M03'']), (''value'', [CNum 1])] ''value''
           (init ''en'' base_url)
         = (Inr ([(''ds'', [d]), (''y'', [CNum 1])], ''M'', 12),
            (init ''en'' base_url)\<lparr>time := Some ''month''\<rparr>)"
  using assms
  by (simp add: prepare_dataframe_def columns_m2_def init_def language_branch_def getitems_def
        getitem_def loc0_def month_branch_def setcol_def Let_def)

section \<open>Properties of get\_json\<close>

subsection \<open>The text of the query\<close>


















subsection \<open>Reading the text back\<close>



lemma lex_out_step: "tokenize LOut (c # t) = snd (lstep_out c) @ tokenize (fst (lstep_out c)) t"
  by simp


lemmas lex_simps = lstep_out_def lstep_str_def








subsection \<open>The document\<close>



lemmas get_json_eval = get_json_def query_element_def py_str_list_def py_repr_def repr_chr_def
  is_printable_def query_text_def literal_eval_def lex_simps spec_query_def spec_entry_def
  Let_def



section \<open>Properties of read\_box\<close>

text \<open>
  C8, as stated, fails for a missing selection: with nothing selected in any widget the
  query is built with empty value lists and posted; when the server answers, \<open>read_box\<close>
  returns the answer and prints nothing.
\<close>

theorem read_box_posts_empty_selection:
  "read_box example_net (Some example_box) example_selected
   = (Inr (Some (example_frame, ''Population'')),
      example_selected\<lparr>calls := [Get example_url, Get example_url,
                                  Post example_url (spec_query example_vars [[], []])]\<rparr>)"
  by (simp add: read_box_def read_box_try_def post_def get_json_eval example_box_def
        example_selected_def example_resolved_def example_vars_def example_net_def)

lemma read_box_try_out: "out (snd (read_box_try nt from_box st)) = out st"
  by (simp add: read_box_try_def post_def split: sum.splits option.splits list.splits)

lemma read_box_try_calls:
  "get_json from_box ''dict'' (client st) = Inl e \<Longrightarrow>
   read_box_try nt from_box st = (Inl e, st)"
  by (simp add: read_box_try_def)

text \<open>
  C8, amended.  \<open>read_box\<close> never raises.  Whenever a step of its \<open>try\<close> body raises,
  whatever the exception, it prints the line \<open>You must make choices in the box!\<close> and
  returns \<open>None\<close>; when it is the construction of the query that raises, no request has
  been sent.
\<close>

theorem read_box_catches_all:
  "(\<exists>r. fst (read_box nt from_box st) = Inr r)
   \<and> (fst (read_box_try nt from_box st) = Inl e \<longrightarrow>
        fst (read_box nt from_box st) = Inr None
        \<and> out (snd (read_box nt from_box st)) = out st @ [''You must make choices in the box!''])
   \<and> (get_json from_box ''dict'' (client st) = Inl e \<longrightarrow>
        fst (read_box nt from_box st) = Inr None
        \<and> calls (snd (read_box nt from_box st)) = calls st)"
proof -
  obtain r st1 where t: "read_box_try nt from_box st = (r, st1)"
    by (cases "read_box_try nt from_box st")
  have o: "out st1 = out st"
    using read_box_try_out [of nt from_box st] t by simp
  have 1: "\<exists>r. fst (read_box nt from_box st) = Inr r"
    by (cases r) (simp_all add: read_box_def t)
  have 2: "fst (read_box nt from_box st) = Inr None
        \<and> out (snd (read_box nt from_box st)) = out st @ [''You must make choices in the box!'']"
    if "fst (read_box_try nt from_box st) = Inl e"
    using that t o by (simp add: read_box_def)
  have 3: "fst (read_box nt from_box st) = Inr None
        \<and> calls (snd (read_box nt from_box st)) = calls st"
    if "get_json from_box ''dict'' (client st) = Inl e"
    using read_box_try_calls [OF that, of nt] by (simp add: read_box_def)
  show ?thesis using 1 2 3 by blast
qed

theorem read_box_catches_all_witness:
  "fst (read_box example_net None example_selected) = Inr None
   \<and> out (snd (read_box example_net None example_selected))
       = [''You must make choices in the box!'']
   \<and> calls (snd (read_box example_net None example_selected)) = [Get example_url, Get example_url]"
proof -
  have g: "get_json None ''dict'' (client example_selected) = Inl AttributeError"
    by (simp add: get_json_def)
  have t: "fst (read_box_try example_net None example_selected) = Inl AttributeError"
    by (simp add: read_box_try_def g)
  show ?thesis
    using read_box_catches_all [of example_net None example_selected AttributeError] g t
    by (simp add: example_selected_def example_resolved_def)
qed

section \<open>The cached URL is never overwritten\<close>

lemma language_branch_furl:
  "furl (snd (language_branch pd df v m w q y self)) = furl self"
  by (simp add: language_branch_def split: sum.splits option.splits)

lemma prepare_dataframe_furl:
  "furl (snd (prepare_dataframe pd df val_col self)) = furl self"
proof (cases "columns_m2 df")
  case (Inl e)
  then show ?thesis by (simp add: prepare_dataframe_def)
next
  case (Inr time_col)
  define self1 where "self1 = self\<lparr>time := Some time_col\<rparr>"
  define rs where "rs =
     (if language self1 = ''no''
      then language_branch pd df val_col [CHR ''m'', CHR 0xE5, CHR ''n'', CHR ''e'', CHR ''d'']
             ''uke'' None [CHR 0xE5, CHR ''r''] self1
      else if language self1 = ''en''
      then language_branch pd df val_col ''month'' ''week'' (Some ''quarter'') ''year'' self1
      else (Inr \<lparr>df_ret = None, freq = None, freg = None, periods = None\<rparr>, self1))"
  obtain r self2 where rs: "rs = (r, self2)" by (cases rs)
  have "furl (snd rs) = furl self1"
    unfolding rs_def by (simp add: language_branch_furl)
  then have f2: "furl self2 = furl self"
    using rs by (simp add: self1_def)
  have "snd (prepare_dataframe pd df val_col self) = self2"
    using rs unfolding prepare_dataframe_def Inr rs_def self1_def
    by (simp add: Let_def split: sum.splits option.splits)
  then show ?thesis using f2 by simp
qed

lemma read_box_client: "client (snd (read_box nt from_box st)) = client st"
  by (simp add: read_box_def read_box_try_def post_def split: sum.splits option.splits list.splits prod.splits)

text \<open>
  C10.  Once \<open>furl\<close> is set, a call of \<open>get_variables\<close> or of \<open>select\<close>, with whatever
  table identifier, leaves \<open>furl\<close> as it was, and every request the call sends goes to
  that URL: \<open>get_variables\<close> sends one (none when \<open>int(table_id)\<close> raises an exception
  other than \<open>ValueError\<close>, which leaves the function before the request), \<open>select\<close>
  sends a second one when \<open>get_variables\<close> returned.  The other methods that run in a
  state, \<open>prepare_dataframe\<close> and \<open>read_box\<close>, do not touch \<open>furl\<close> either.
\<close>

theorem furl_never_overwritten:
  assumes "furl (client st) = Some u"
  shows "furl (client (snd (get_variables nt t st))) = Some u
     \<and> calls (snd (get_variables nt t st))
        = calls st @ (case try_numb t of Inl e \<Rightarrow> [] | Inr r \<Rightarrow> [Get u])
     \<and> furl (client (snd (select nt t st))) = Some u
     \<and> calls (snd (select nt t st))
        = calls st @ (case fst (get_variables nt t st) of
                        Inl e \<Rightarrow> (case try_numb t of Inl e \<Rightarrow> [] | Inr r \<Rightarrow> [Get u])
                      | Inr r \<Rightarrow> [Get u, Get u])
     \<and> furl (snd (prepare_dataframe pd df val_col (client st))) = Some u
     \<and> furl (client (snd (read_box nt from_box st))) = Some u"
  using get_variables_cached [OF assms] select_cached [OF assms] assms
  by (simp add: prepare_dataframe_furl read_box_client)

theorem furl_never_overwritten_witness:
  "furl (client example_resolved) = Some example_url
   \<and> furl (client (snd (get_variables example_net (PStr ''99999'') example_resolved)))
       = Some example_url
   \<and> calls (snd (get_variables example_net (PStr ''99999'') example_resolved))
      = [Get example_url, Get example_url]
   \<and> furl (client (snd (select example_net (PStr ''99999'') example_resolved)))
       = Some example_url
   \<and> calls (snd (select example_net (PStr ''99999'') example_resolved))
      = [Get example_url, Get example_url, Get example_url]"
proof -
  have a: "furl (client example_resolved) = Some example_url"
    by (simp add: example_resolved_def)
  have t: "try_numb (PStr ''99999'') = Inr (Some (PInt 99999), [])"
    by (simp add: eval_defs str_nat.simps)
  have g: "fst (get_variables example_net (PStr ''99999'') example_resolved) = Inr example_vars"
    by (simp add: get_variables_def t resolve_furl_def read_json_def example_resolved_def
          example_net_def)
  have c: "calls example_resolved = [Get example_url]"
    by (simp add: example_resolved_def)
  show ?thesis
    using furl_never_overwritten [OF a, of example_net "PStr ''99999''"] a t g c by simp
qed

end
